theory Spec2Isabelle
  imports Main "HOL-Library.AList" "HOL-Library.FSet"
begin

section \<open>Exceptions and messages\<close>

text \<open>
  A message is what an f-string builds: literal text and formatted values, in order.
  The only formatted value whose text Python does not fix is the \<open>repr\<close> of a set
  (its iteration order is unspecified), so that one is kept as the set itself.
\<close>

datatype part = Txt string | SetRepr "string fset"

type_synonym message = "part list"

text \<open>
  The exception classes the two source files raise, catch or let through.
  \<open>ImproperlyConfigured\<close> is \<open>wtfix.core.exceptions.ImproperlyConfigured\<close>;
  \<open>TimeoutError\<close> and \<open>CancelledError\<close> are the ones of \<open>asyncio.futures\<close>.
  \<open>OtherException\<close> stands for any further subclass of \<open>Exception\<close>,
  \<open>OtherBaseException\<close> for a \<open>BaseException\<close> that is not an \<open>Exception\<close>
  (\<open>SystemExit\<close>, \<open>GeneratorExit\<close>).
\<close>

datatype exc_class =
    ImproperlyConfigured
  | TimeoutError
  | CancelledError
  | KeyboardInterrupt
  | KeyError
  | TypeError
  | AttributeError
  | ValueError
  | IndexError
  | StopIteration
  | RecursionError
  | OtherException string
  | OtherBaseException string

datatype exc = Exc exc_class message

text \<open>What \<open>except Exception\<close> catches.\<close>

fun is_Exception :: "exc_class \<Rightarrow> bool" where
  "is_Exception KeyboardInterrupt = False"
| "is_Exception (OtherBaseException n) = False"
| "is_Exception c = True"


section \<open>run_client.py: the try statement of the main block\<close>

text \<open>\<open>os.EX_OK\<close> and \<open>os.EX_UNAVAILABLE\<close>.\<close>

definition EX_OK :: nat where
  "EX_OK = 0"

definition EX_UNAVAILABLE :: nat where
  "EX_UNAVAILABLE = 69"

datatype level = INFO | ERROR | EXCEPTION

text \<open>
  What the main thread has done so far: the records it logged (\<open>logger.info\<close>,
  \<open>logger.error\<close>, \<open>logger.exception\<close>) and how many times it called
  \<open>fix_pipeline.stop()\<close>. The signal handler \<open>graceful_shutdown\<close> runs on the
  event loop's thread and is not part of this state.
\<close>

record process =
  log :: "(level \<times> message) list"
  stop_attempts :: nat

definition process0 :: process where
  "process0 = \<lparr>log = [], stop_attempts = 0\<rparr>"

definition logged :: "level \<Rightarrow> message \<Rightarrow> process \<Rightarrow> process" where
  "logged l m p = p\<lparr>log := log p @ [(l, m)]\<rparr>"

text \<open>
  How the try statement leaves: it falls off its end, a \<open>sys.exit(status)\<close> is on its
  way out, or another exception is.
\<close>

datatype outcome = Completed | SysExit nat | Propagated exc

text \<open>
  The collaborators of the try statement, each given by what its call does:
  \<open>unsync.loop.add_signal_handler\<close> for a signal name, \<open>fix_pipeline.start().result()\<close>
  and \<open>fix_pipeline.stop().result()\<close>.
\<close>

record runtime =
  add_signal_handler :: "string \<Rightarrow> exc + unit"
  start_result :: "exc + unit"
  stop_result :: "exc + unit"

text \<open>Lines 84-88: the loop over the signal names stops at the first call that raises.\<close>

fun install_handlers :: "(string \<Rightarrow> exc + unit) \<Rightarrow> string list \<Rightarrow> exc + unit" where
  "install_handlers add [] = Inr ()"
| "install_handlers add (sig_name # rest) =
     (case add sig_name of
        Inl e \<Rightarrow> Inl e
      | Inr u \<Rightarrow> install_handlers add rest)"

text \<open>
  Lines 84-90, the body of the try. Python does not fix the order in which the set
  \<open>{"SIGINT", "SIGTERM"}\<close> is iterated, so the order is an argument.
\<close>

definition try_body :: "runtime \<Rightarrow> string list \<Rightarrow> exc + unit" where
  "try_body rt sig_names =
     (case install_handlers (add_signal_handler rt) sig_names of
        Inl e \<Rightarrow> Inl e
      | Inr u \<Rightarrow> start_result rt)"

definition cancelled_message :: "message \<Rightarrow> message" where
  "cancelled_message m =
     [Txt ''Cancelled: connection terminated abnormally! (''] @ m @ [Txt '')'']"

text \<open>Lines 92-110: the except clauses, tried in the order they are written.\<close>

fun except_clauses :: "exc \<Rightarrow> process \<Rightarrow> outcome \<times> process" where
  "except_clauses (Exc c m) p =
     (if c = TimeoutError then (SysExit EX_UNAVAILABLE, logged ERROR m p)
      else if c = KeyboardInterrupt then
        (SysExit EX_OK,
         logged INFO [Txt ''Received keyboard interrupt! Initiating shutdown...''] p)
      else if c = CancelledError then
        (SysExit EX_UNAVAILABLE, logged ERROR (cancelled_message m) p)
      else if c = ImproperlyConfigured then (SysExit EX_OK, logged ERROR m p)
      else if is_Exception c then (SysExit EX_UNAVAILABLE, logged EXCEPTION m p)
      else (Propagated (Exc c m), p))"

text \<open>
  Lines 112-117: the finally block. It calls \<open>stop\<close> once. When that returns, what was
  on its way out goes on; a \<open>CancelledError\<close> is logged and replaced by
  \<open>sys.exit(os.EX_UNAVAILABLE)\<close>; any other exception replaces what was on its way out.
\<close>

fun finally_block :: "exc + unit \<Rightarrow> outcome \<times> process \<Rightarrow> outcome \<times> process" where
  "finally_block (Inr u) (pending, p) =
     (pending, p\<lparr>stop_attempts := stop_attempts p + 1\<rparr>)"
| "finally_block (Inl (Exc c m)) (pending, p) =
     (if c = CancelledError then
        (SysExit EX_UNAVAILABLE,
         logged ERROR (cancelled_message m) (p\<lparr>stop_attempts := stop_attempts p + 1\<rparr>))
      else (Propagated (Exc c m), p\<lparr>stop_attempts := stop_attempts p + 1\<rparr>))"

text \<open>Lines 81-117 as a whole, from the outcome of the body.\<close>

definition try_statement :: "exc + unit \<Rightarrow> exc + unit \<Rightarrow> outcome \<times> process" where
  "try_statement body stop =
     finally_block stop
       (case body of
          Inr u \<Rightarrow> (Completed, process0)
        | Inl e \<Rightarrow> except_clauses e process0)"

definition main_try :: "runtime \<Rightarrow> string list \<Rightarrow> outcome \<times> process" where
  "main_try rt sig_names = try_statement (try_body rt sig_names) (stop_result rt)"


section \<open>Python values\<close>

text \<open>
  The values a settings module binds. Dictionaries of settings are keyed by \<open>str\<close>
  and keep insertion order, so a dictionary is its list of items (with distinct keys);
  \<open>PClass\<close> is a class object, named. The texts of Python's own exceptions
  (\<open>KeyError\<close>, \<open>TypeError\<close>, ...) are not modelled: their message is empty.
\<close>

datatype pyval =
    PNone
  | PBool bool
  | PInt int
  | PStr string
  | PList "pyval list"
  | PTuple "pyval list"
  | PDict "(string \<times> pyval) list"
  | PClass string

text \<open>\<open>isinstance(v, (list, tuple))\<close>\<close>

fun is_list_or_tuple :: "pyval \<Rightarrow> bool" where
  "is_list_or_tuple (PList xs) = True"
| "is_list_or_tuple (PTuple xs) = True"
| "is_list_or_tuple v = False"

text \<open>
  \<open>str.isupper\<close> on ASCII names: at least one cased character, and no cased
  character in lower case.
\<close>

definition is_ascii_upper :: "char \<Rightarrow> bool" where
  "is_ascii_upper c = (65 \<le> (of_char c :: nat) \<and> (of_char c :: nat) \<le> 90)"

definition is_ascii_lower :: "char \<Rightarrow> bool" where
  "is_ascii_lower c = (97 \<le> (of_char c :: nat) \<and> (of_char c :: nat) \<le> 122)"

definition isupper :: "string \<Rightarrow> bool" where
  "isupper s = (list_ex is_ascii_upper s \<and> \<not> list_ex is_ascii_lower s)"

fun hashable :: "pyval \<Rightarrow> bool" where
  "hashable (PList xs) = False"
| "hashable (PDict d) = False"
| "hashable (PTuple xs) = list_all hashable xs"
| "hashable v = True"

text \<open>\<open>len(x)\<close>\<close>

fun py_len :: "pyval \<Rightarrow> exc + nat" where
  "py_len (PStr s) = Inr (length s)"
| "py_len (PList xs) = Inr (length xs)"
| "py_len (PTuple xs) = Inr (length xs)"
| "py_len (PDict d) = Inr (length d)"
| "py_len v = Inl (Exc TypeError [])"

text \<open>\<open>next(iter(x))\<close>: the first element, for a dictionary its first key.\<close>

fun py_next_iter :: "pyval \<Rightarrow> exc + pyval" where
  "py_next_iter (PStr (c # s)) = Inr (PStr [c])"
| "py_next_iter (PList (x # xs)) = Inr x"
| "py_next_iter (PTuple (x # xs)) = Inr x"
| "py_next_iter (PDict ((k, v) # d)) = Inr (PStr k)"
| "py_next_iter (PStr []) = Inl (Exc StopIteration [])"
| "py_next_iter (PList []) = Inl (Exc StopIteration [])"
| "py_next_iter (PTuple []) = Inl (Exc StopIteration [])"
| "py_next_iter (PDict []) = Inl (Exc StopIteration [])"
| "py_next_iter v = Inl (Exc TypeError [])"

text \<open>Subscripting a sequence: an \<open>int\<close> (or \<open>bool\<close>) index, negative from the end.\<close>

fun py_index :: "'a list \<Rightarrow> pyval \<Rightarrow> exc + 'a" where
  "py_index xs (PInt i) =
     (if 0 \<le> i \<and> i < int (length xs) then Inr (xs ! nat i)
      else if i < 0 \<and> - int (length xs) \<le> i then Inr (xs ! nat (int (length xs) + i))
      else Inl (Exc IndexError []))"
| "py_index xs (PBool b) =
     (let j = (if b then 1 else 0 :: nat)
      in if j < length xs then Inr (xs ! j) else Inl (Exc IndexError []))"
| "py_index xs k = Inl (Exc TypeError [])"

text \<open>\<open>x[k]\<close>\<close>

fun py_getitem :: "pyval \<Rightarrow> pyval \<Rightarrow> exc + pyval" where
  "py_getitem (PDict d) (PStr k) =
     (case map_of d k of
        None \<Rightarrow> Inl (Exc KeyError [])
      | Some v \<Rightarrow> Inr v)"
| "py_getitem (PDict d) k =
     (if hashable k then Inl (Exc KeyError []) else Inl (Exc TypeError []))"
| "py_getitem (PList xs) k = py_index xs k"
| "py_getitem (PTuple xs) k = py_index xs k"
| "py_getitem (PStr s) k =
     (case py_index s k of
        Inl e \<Rightarrow> Inl e
      | Inr c \<Rightarrow> Inr (PStr [c]))"
| "py_getitem v k = Inl (Exc TypeError [])"

text \<open>\<open>x.items()\<close>\<close>

fun py_items :: "pyval \<Rightarrow> exc + (string \<times> pyval) list" where
  "py_items (PDict d) = Inr d"
| "py_items v = Inl (Exc AttributeError [])"

text \<open>\<open>s.rsplit(".", 1)\<close>: split at the last dot, if there is one.\<close>

definition rsplit_dot :: "string \<Rightarrow> string list" where
  "rsplit_dot s =
     (let r = rev s;
          last_part = takeWhile (\<lambda>c. c \<noteq> CHR ''.'') r;
          dot_and_first = dropWhile (\<lambda>c. c \<noteq> CHR ''.'') r
      in if dot_and_first = [] then [s] else [rev (tl dot_and_first), rev last_part])"

text \<open>\<open>a, b = xs\<close>\<close>

fun unpack2 :: "'a list \<Rightarrow> exc + 'a \<times> 'a" where
  "unpack2 [a, b] = Inr (a, b)"
| "unpack2 xs = Inl (Exc ValueError [])"


section \<open>wtfix/conf/__init__.py: Settings\<close>

text \<open>
  A module, as the code reads it: the names \<open>dir\<close> lists, in that order, each with
  the value \<open>getattr\<close> gives.
\<close>

type_synonym pymodule = "(string \<times> pyval) list"

text \<open>
  What the code reads from outside: the process environment (after \<open>load_dotenv\<close>),
  \<open>importlib.import_module\<close>, and the module \<open>wtfix.conf.global_settings\<close>, which
  is not among the sources and is a parameter here.
\<close>

record pyenv =
  environ :: "string \<Rightarrow> string option"
  import_module :: "string \<Rightarrow> exc + pymodule"
  global_settings :: pymodule

definition ENVIRONMENT_VARIABLE :: string where
  "ENVIRONMENT_VARIABLE = ''WTFIX_SETTINGS_MODULE''"

text \<open>
  The Settings object: \<open>attrs\<close> holds the attributes set with \<open>setattr\<close> and
  \<open>WTFIX_SETTINGS_MODULE\<close> (an assignment replaces the value in place or appends,
  as in the instance's \<open>__dict__\<close>); the other fields are \<open>_explicit_settings\<close>,
  \<open>_logger\<close> and \<open>_active_protocol\<close> (\<open>PNone\<close> when empty).
\<close>

record Settings =
  attrs :: "(string \<times> pyval) list"
  explicit_settings :: "string fset"
  logger_field :: "string option"
  active_protocol_field :: pyval

definition not_configured_message :: message where
  "not_configured_message =
     [Txt ''Settings are not configured. You must either define the environment variable '',
      Txt ENVIRONMENT_VARIABLE,
      Txt '' or call settings.configure() before accessing settings.'']"

definition must_be_list_message :: "string \<Rightarrow> message" where
  "must_be_list_message setting =
     [Txt ''The '', Txt setting, Txt '' setting must be a list or a tuple. '']"

definition ambiguous_default_message :: message where
  "ambiguous_default_message =
     [Txt (''Cannot fall back to using session defaults as more than one session has been configured ''
         @ ''using the 'SESSIONS' parameter. You MUST specify which sessions' configuration settings to use.'')]"

definition no_group_template_message :: "string fset \<Rightarrow> message" where
  "no_group_template_message missing_identifiers =
     [Txt ''No group template defined for identifier(s): '', SetRepr missing_identifiers, Txt ''.'']"

text \<open>Lines 46-53: which module to load.\<close>

definition settings_module_name :: "pyenv \<Rightarrow> string option \<Rightarrow> exc + string" where
  "settings_module_name env settings_module =
     (case settings_module of
        Some m \<Rightarrow> Inr m
      | None \<Rightarrow>
          (case environ env ENVIRONMENT_VARIABLE of
             None \<Rightarrow> Inl (Exc ImproperlyConfigured not_configured_message)
           | Some v \<Rightarrow>
               if v = [] then Inl (Exc ImproperlyConfigured not_configured_message)
               else Inr v))"

text \<open>Lines 55-57: the upper-case names of the global settings.\<close>

fun load_global :: "pymodule \<Rightarrow> (string \<times> pyval) list \<Rightarrow> (string \<times> pyval) list" where
  "load_global [] a = a"
| "load_global ((setting, v) # rest) a =
     load_global rest (if isupper setting then AList.update setting v a else a)"

text \<open>Lines 66-78: the upper-case names of the settings module, with the check.\<close>

fun load_module ::
  "pymodule \<Rightarrow> (string \<times> pyval) list \<times> string fset
     \<Rightarrow> exc + (string \<times> pyval) list \<times> string fset" where
  "load_module [] st = Inr st"
| "load_module ((setting, setting_value) # rest) (a, ex) =
     (if isupper setting then
        if setting = ''PIPELINE_APPS'' \<and> \<not> is_list_or_tuple setting_value
        then Inl (Exc ImproperlyConfigured (must_be_list_message setting))
        else load_module rest (AList.update setting setting_value a, finsert setting ex)
      else load_module rest (a, ex))"

text \<open>
  Lines 54-80: what \<open>Settings.__init__\<close> does once it has the name of the settings
  module.
\<close>

definition load_settings :: "pyenv \<Rightarrow> string \<Rightarrow> exc + Settings" where
  "load_settings env name =
     (case import_module env name of
        Inl e \<Rightarrow> Inl e
      | Inr module \<Rightarrow>
          (case load_module module
                  (AList.update ''WTFIX_SETTINGS_MODULE'' (PStr name)
                     (load_global (global_settings env) []), {||}) of
             Inl e \<Rightarrow> Inl e
           | Inr (a, ex) \<Rightarrow>
               Inr \<lparr>attrs = a, explicit_settings = ex, logger_field = None,
                    active_protocol_field = PNone\<rparr>))"

text \<open>\<open>Settings.__init__\<close>, lines 43-80.\<close>

definition Settings_init :: "pyenv \<Rightarrow> string option \<Rightarrow> exc + Settings" where
  "Settings_init env settings_module =
     (case settings_module_name env settings_module of
        Inl e \<Rightarrow> Inl e
      | Inr name \<Rightarrow> load_settings env name)"

text \<open>
  Line 158: \<open>settings = Settings()\<close>. SessionSettings reads and writes this one
  object, so the methods below are taken on it: their \<open>self\<close> is \<open>settings\<close>.
\<close>

definition settings :: "pyenv \<Rightarrow> exc + Settings" where
  "settings env = Settings_init env None"

text \<open>Reading an attribute that \<open>setattr\<close> may have set.\<close>

definition getattr_settings :: "Settings \<Rightarrow> string \<Rightarrow> exc + pyval" where
  "getattr_settings s name =
     (case map_of (attrs s) name of
        None \<Rightarrow> Inl (Exc AttributeError [])
      | Some v \<Rightarrow> Inr v)"

text \<open>Lines 82-84.\<close>

definition has_safe_defaults :: "Settings \<Rightarrow> exc + bool" where
  "has_safe_defaults s =
     (case getattr_settings s ''CONNECTIONS'' of
        Inl e \<Rightarrow> Inl e
      | Inr c \<Rightarrow>
          (case py_len c of
             Inl e \<Rightarrow> Inl e
           | Inr n \<Rightarrow> Inr (n = 1)))"

text \<open>Lines 86-94.\<close>

definition default_connection_name :: "Settings \<Rightarrow> exc + pyval" where
  "default_connection_name s =
     (case has_safe_defaults s of
        Inl e \<Rightarrow> Inl e
      | Inr safe \<Rightarrow>
          if safe then
            (case getattr_settings s ''CONNECTIONS'' of
               Inl e \<Rightarrow> Inl e
             | Inr c \<Rightarrow> py_next_iter c)
          else Inl (Exc ImproperlyConfigured ambiguous_default_message))"

text \<open>
  Lines 126-149. \<open>identifiers\<close> is \<open>None\<close> or a set of identifiers; the dictionary
  comprehension keeps the items of \<open>session_templates\<close> whose key is in the set.
\<close>

definition get_group_templates ::
  "Settings \<Rightarrow> pyval \<Rightarrow> string fset option \<Rightarrow> exc + pyval" where
  "get_group_templates s connection_name identifiers =
     (case (if connection_name = PNone then default_connection_name s
            else Inr connection_name) of
        Inl e \<Rightarrow> Inl e
      | Inr name \<Rightarrow>
          (case getattr_settings s ''CONNECTIONS'' of
             Inl e \<Rightarrow> Inl e
           | Inr c \<Rightarrow>
               (case py_getitem c name of
                  Inl e \<Rightarrow> Inl e
                | Inr conn \<Rightarrow>
                    (case py_getitem conn (PStr ''GROUP_TEMPLATES'') of
                       Inl e \<Rightarrow> Inl e
                     | Inr session_templates \<Rightarrow>
                         (case identifiers of
                            None \<Rightarrow> Inr session_templates
                          | Some ids \<Rightarrow>
                              (case py_items session_templates of
                                 Inl e \<Rightarrow> Inl e
                               | Inr items \<Rightarrow>
                                   (let templates = filter (\<lambda>(identifier, template). identifier |\<in>| ids) items
                                    in if length templates \<noteq> fcard ids
                                       then Inl (Exc ImproperlyConfigured
                                              (no_group_template_message
                                                 (ids |-| fset_of_list (map fst templates))))
                                       else Inr (PDict templates))))))))"


section \<open>wtfix/conf/__init__.py: SessionSettings\<close>

text \<open>
  Lines 173-175 and 103-105: from a \<open>PROTOCOL\<close> value to the class it names. A value
  that is not a string has no \<open>rsplit\<close>.
\<close>

definition resolve_protocol :: "pyenv \<Rightarrow> pyval \<Rightarrow> exc + pyval" where
  "resolve_protocol env setting_value =
     (case setting_value of
        PStr p \<Rightarrow>
          (case unpack2 (rsplit_dot p) of
             Inl e \<Rightarrow> Inl e
           | Inr (mod_name, class_name) \<Rightarrow>
               (case import_module env mod_name of
                  Inl e \<Rightarrow> Inl e
                | Inr module \<Rightarrow>
                    (case map_of module class_name of
                       None \<Rightarrow> Inl (Exc AttributeError [])
                     | Some protocol_class \<Rightarrow> Inr protocol_class)))
      | _ \<Rightarrow> Inl (Exc AttributeError []))"

text \<open>Lines 111-113: the setter of \<open>active_protocol\<close>.\<close>

definition set_active_protocol :: "pyval \<Rightarrow> Settings \<Rightarrow> Settings" where
  "set_active_protocol protocol_class s = s\<lparr>active_protocol_field := protocol_class\<rparr>"

text \<open>A SessionSettings object is its attributes, in the order they were set.\<close>

type_synonym SessionSettings = "(string \<times> pyval) list"

text \<open>
  Lines 171-179: the loop over the items of the connection. The state of the Settings
  object is returned also when the loop raises: what it wrote before stays written.
\<close>

fun promote ::
  "pyenv \<Rightarrow> (string \<times> pyval) list \<Rightarrow> SessionSettings \<Rightarrow> Settings
     \<Rightarrow> (exc + SessionSettings) \<times> Settings" where
  "promote env [] self s = (Inr self, s)"
| "promote env ((setting, setting_value) # rest) self s =
     (if setting = ''PROTOCOL'' then
        (case resolve_protocol env setting_value of
           Inl e \<Rightarrow> (Inl e, s)
         | Inr protocol_class \<Rightarrow>
             promote env rest (AList.update setting setting_value self)
               (set_active_protocol protocol_class s))
      else promote env rest (AList.update setting setting_value self) s)"

text \<open>Lines 171-179, for a connection name that is not \<open>None\<close>.\<close>

definition SessionSettings_named ::
  "pyenv \<Rightarrow> Settings \<Rightarrow> pyval \<Rightarrow> (exc + SessionSettings) \<times> Settings" where
  "SessionSettings_named env s connection_name =
     (case getattr_settings s ''CONNECTIONS'' of
        Inl e \<Rightarrow> (Inl e, s)
      | Inr c \<Rightarrow>
          (case py_getitem c connection_name of
             Inl e \<Rightarrow> (Inl e, s)
           | Inr conn \<Rightarrow>
               (case py_items conn of
                  Inl e \<Rightarrow> (Inl e, s)
                | Inr items \<Rightarrow> promote env items [] s)))"

text \<open>
  \<open>SessionSettings.__init__\<close>, lines 167-179. With no connection name, line 169
  reads \<open>settings.default_connection\<close>, which is the SessionSettings object built for
  the default connection name (lines 96-98), and subscripts it with \<open>[0]\<close>; the class
  defines no \<open>__getitem__\<close>, so that is a \<open>TypeError\<close>. Should the default connection
  name itself be \<open>None\<close>, the constructor calls itself until Python raises
  \<open>RecursionError\<close>.
\<close>

definition SessionSettings_init ::
  "pyenv \<Rightarrow> Settings \<Rightarrow> pyval \<Rightarrow> (exc + SessionSettings) \<times> Settings" where
  "SessionSettings_init env s connection_name =
     (if connection_name = PNone then
        (case default_connection_name s of
           Inl e \<Rightarrow> (Inl e, s)
         | Inr name \<Rightarrow>
             if name = PNone then (Inl (Exc RecursionError []), s)
             else
               (case SessionSettings_named env s name of
                  (Inl e, s1) \<Rightarrow> (Inl e, s1)
                | (Inr default_connection, s1) \<Rightarrow> (Inl (Exc TypeError []), s1)))
      else SessionSettings_named env s connection_name)"

text \<open>Lines 96-98.\<close>

definition default_connection ::
  "pyenv \<Rightarrow> Settings \<Rightarrow> (exc + SessionSettings) \<times> Settings" where
  "default_connection env s =
     (case default_connection_name s of
        Inl e \<Rightarrow> (Inl e, s)
      | Inr name \<Rightarrow> SessionSettings_init env s name)"

text \<open>Lines 100-109: the getter of \<open>active_protocol\<close>.\<close>

definition active_protocol :: "pyenv \<Rightarrow> Settings \<Rightarrow> (exc + pyval) \<times> Settings" where
  "active_protocol env s =
     (if active_protocol_field s = PNone then
        (case default_connection env s of
           (Inl e, s1) \<Rightarrow> (Inl e, s1)
         | (Inr dc, s1) \<Rightarrow>
             (case map_of dc ''PROTOCOL'' of
                None \<Rightarrow> (Inl (Exc AttributeError []), s1)
              | Some p \<Rightarrow>
                  (case resolve_protocol env p of
                     Inl e \<Rightarrow> (Inl e, s1)
                   | Inr protocol_class \<Rightarrow>
                       (Inr protocol_class, s1\<lparr>active_protocol_field := protocol_class\<rparr>))))
      else (Inr (active_protocol_field s), s))"


section \<open>run_client.py: from the start of the process\<close>

text \<open>
  What the script does before the try statement, each call given by what it does:
  \<open>settings.logger\<close> (line 33), \<open>logging.basicConfig\<close> (lines 71-74),
  \<open>parser.parse_args()\<close> (line 76), from the default of \<open>--connection\<close> to
  \<open>args.connection\<close> and \<open>args.new_session\<close>, and \<open>BasePipeline(...)\<close>
  (lines 77-79).
\<close>

record startup =
  logger_result :: "exc + unit"
  basicConfig_result :: "exc + unit"
  parse_args :: "pyval \<Rightarrow> exc + pyval \<times> bool"
  BasePipeline :: "pyval \<Rightarrow> bool \<Rightarrow> exc + unit"

text \<open>
  Lines 37-41: the default of \<open>--connection\<close>; only \<open>ImproperlyConfigured\<close> is
  caught.
\<close>

definition cli_default_connection_name :: "Settings \<Rightarrow> exc + pyval" where
  "cli_default_connection_name s =
     (case default_connection_name s of
        Inr name \<Rightarrow> Inr name
      | Inl (Exc c m) \<Rightarrow> if c = ImproperlyConfigured then Inr PNone else Inl (Exc c m))"

text \<open>
  Lines 18-79. Line 29 imports \<open>wtfix.conf\<close>, which runs \<open>settings = Settings()\<close>.
  None of these lines is inside a try statement that catches what they raise.
\<close>

definition before_try :: "pyenv \<Rightarrow> startup \<Rightarrow> exc + unit" where
  "before_try env su =
     (case settings env of
        Inl e \<Rightarrow> Inl e
      | Inr s \<Rightarrow>
          (case logger_result su of
             Inl e \<Rightarrow> Inl e
           | Inr u \<Rightarrow>
               (case cli_default_connection_name s of
                  Inl e \<Rightarrow> Inl e
                | Inr default_name \<Rightarrow>
                    (case basicConfig_result su of
                       Inl e \<Rightarrow> Inl e
                     | Inr u \<Rightarrow>
                         (case parse_args su default_name of
                            Inl e \<Rightarrow> Inl e
                          | Inr (connection, new_session) \<Rightarrow>
                              BasePipeline su connection new_session)))))"

text \<open>
  The script as a whole. An exception raised before the try statement leaves the
  process as it is: no handler and no finally block is reached.
\<close>

definition launch :: "pyenv \<Rightarrow> startup \<Rightarrow> runtime \<Rightarrow> string list \<Rightarrow> outcome \<times> process" where
  "launch env su rt sig_names =
     (case before_try env su of
        Inl e \<Rightarrow> (Propagated e, process0)
      | Inr u \<Rightarrow> main_try rt sig_names)"



section \<open>Example configurations\<close>

text \<open>
  An environment in which \<open>WTFIX_SETTINGS_MODULE\<close> is not set, the module
  \<open>wtfix.protocol.fix\<close> defines two protocol classes, and the settings module
  \<open>config.bad_apps\<close> binds \<open>PIPELINE_APPS\<close> to a string.
\<close>

definition example_env :: pyenv where
  "example_env =
     \<lparr>environ = (\<lambda>n. None),
      import_module = (\<lambda>n.
        if n = ''wtfix.protocol.fix''
        then Inr [(''FIX42'', PClass ''FIX42''), (''FIX44'', PClass ''FIX44'')]
        else if n = ''config.bad_apps''
        then Inr [(''CONNECTIONS'', PDict []), (''PIPELINE_APPS'', PStr ''wtfix.apps.api'')]
        else Inl (Exc (OtherException ''ModuleNotFoundError'') [])),
      global_settings = [(''LOGGER'', PStr ''wtfix'')]\<rparr>"

text \<open>
  Four connections: \<open>x\<close> and \<open>y\<close> name different protocol classes, \<open>z\<close> has no
  \<open>PROTOCOL\<close>, and the class \<open>w\<close> names does not exist.
\<close>

definition example_connections :: "(string \<times> pyval) list" where
  "example_connections =
     [(''x'', PDict [(''HOST'', PStr ''a.example''),
                     (''PROTOCOL'', PStr ''wtfix.protocol.fix.FIX42'')]),
      (''y'', PDict [(''PROTOCOL'', PStr ''wtfix.protocol.fix.FIX44''),
                     (''HOST'', PStr ''b.example'')]),
      (''z'', PDict [(''HOST'', PStr ''c.example'')]),
      (''w'', PDict [(''PROTOCOL'', PStr ''wtfix.protocol.fix.FIX50'')])]"

definition example_settings :: Settings where
  "example_settings =
     \<lparr>attrs = [(''LOGGER'', PStr ''wtfix''), (''CONNECTIONS'', PDict example_connections)],
      explicit_settings = {|''CONNECTIONS''|},
      logger_field = None,
      active_protocol_field = PNone\<rparr>"

text \<open>One connection, with two group templates.\<close>

definition single_templates :: "(string \<times> pyval) list" where
  "single_templates = [(''A'', PList [PInt 1, PInt 2]), (''C'', PList [PInt 3])]"

definition single_settings :: Settings where
  "single_settings =
     \<lparr>attrs = [(''CONNECTIONS'',
                 PDict [(''default'',
                         PDict [(''HOST'', PStr ''localhost''),
                                (''GROUP_TEMPLATES'', PDict single_templates)])])],
      explicit_settings = {|''CONNECTIONS''|},
      logger_field = None,
      active_protocol_field = PNone\<rparr>"






section \<open>Exit status of the main block\<close>

lemma stop_attempts_logged [simp]: "stop_attempts (logged l m p) = stop_attempts p"
  by (simp add: logged_def)

lemma finally_block_attempts:
  "stop_attempts (snd (finally_block stop (pending, p))) = stop_attempts p + 1"
proof (cases stop)
  case (Inl e)
  then show ?thesis by (cases e) simp
next
  case (Inr u)
  then show ?thesis by simp
qed

lemma except_clauses_attempts:
  "stop_attempts (snd (except_clauses e p)) = stop_attempts p"
  by (cases e) simp

lemma try_statement_attempts: "stop_attempts (snd (try_statement body stop)) = 1"
proof -
  obtain pending p where pp:
    "(case body of Inr u \<Rightarrow> (Completed, process0) | Inl e \<Rightarrow> except_clauses e process0)
       = (pending, p)"
    by (cases "case body of Inr u \<Rightarrow> (Completed, process0)
                 | Inl e \<Rightarrow> except_clauses e process0") auto
  have "stop_attempts p = 0"
  proof (cases body)
    case (Inl e)
    with pp have "p = snd (except_clauses e process0)" by (metis old.sum.simps(5) snd_conv)
    then show ?thesis by (simp add: except_clauses_attempts process0_def)
  next
    case (Inr u)
    with pp show ?thesis by (auto simp: process0_def)
  qed
  then show ?thesis
    unfolding try_statement_def pp using finally_block_attempts [of stop pending p] by simp
qed







text \<open>
  With \<open>WTFIX_SETTINGS_MODULE\<close> not set, line 29 raises before the try statement is
  reached: the \<open>ImproperlyConfigured\<close> of \<open>Settings()\<close> leaves the process uncaught,
  and no stop attempt is made.
\<close>

lemma launch_unconfigured:
  "launch example_env su rt sig_names
     = (Propagated (Exc ImproperlyConfigured not_configured_message), process0)"
  by (simp add: launch_def before_try_def settings_def Settings_init_def settings_module_name_def
      example_env_def)

text \<open>
  C5, as the code has it. On every path through the try statement the finally block
  makes exactly one stop attempt. When that attempt returns, the outcome the body and
  the except clauses decided stands. When it raises \<open>CancelledError\<close>, the process
  exits with \<open>os.EX_UNAVAILABLE\<close> whatever that outcome was.
\<close>

theorem cleanup_stop:
  "stop_attempts (snd (try_statement body stop)) = 1
   \<and> (stop = Inr () \<longrightarrow>
        fst (try_statement body stop)
          = (case body of Inr u \<Rightarrow> Completed | Inl e \<Rightarrow> fst (except_clauses e process0)))
   \<and> (\<forall>m. stop = Inl (Exc CancelledError m) \<longrightarrow>
        fst (try_statement body stop) = SysExit EX_UNAVAILABLE)"
proof -
  have a: "stop_attempts (snd (try_statement body stop)) = 1"
    by (rule try_statement_attempts)
  have b: "fst (try_statement body (Inr ()))
      = (case body of Inr u \<Rightarrow> Completed | Inl e \<Rightarrow> fst (except_clauses e process0))"
    by (cases body; cases "except_clauses (projl body) process0")
       (simp_all add: try_statement_def)
  have c: "fst (try_statement body (Inl (Exc CancelledError m))) = SysExit EX_UNAVAILABLE"
    for m
    by (cases body; cases "except_clauses (projl body) process0")
       (simp_all add: try_statement_def)
  from a b c show ?thesis by blast
qed

text \<open>
  A keyboard interrupt with a stop that returns: one stop attempt, exit with
  \<open>os.EX_OK\<close>.
\<close>

theorem cleanup_stop_witness:
  "stop_attempts (snd (try_statement (Inl (Exc KeyboardInterrupt [])) (Inr ()))) = 1
   \<and> fst (try_statement (Inl (Exc KeyboardInterrupt [])) (Inr ())) = SysExit EX_OK"
  using cleanup_stop [of "Inl (Exc KeyboardInterrupt [])" "Inr ()"] by simp

text \<open>
  C5 as stated fails: after a keyboard interrupt the exit status decided is
  \<open>os.EX_OK\<close>; a \<open>CancelledError\<close> from the stop of the finally block changes it to
  \<open>os.EX_UNAVAILABLE\<close>.
\<close>

theorem cleanup_stop_counterexample:
  "fst (except_clauses (Exc KeyboardInterrupt []) process0) = SysExit EX_OK
   \<and> fst (try_statement (Inl (Exc KeyboardInterrupt [])) (Inl (Exc CancelledError [])))
       = SysExit EX_UNAVAILABLE
   \<and> EX_UNAVAILABLE \<noteq> EX_OK"
  by (simp add: try_statement_def EX_OK_def EX_UNAVAILABLE_def)



section \<open>Loading the settings\<close>

text \<open>
  C2. With no settings module given and \<open>WTFIX_SETTINGS_MODULE\<close> unset or empty,
  \<open>Settings.__init__\<close> raises \<open>ImproperlyConfigured\<close> with a message that names the
  variable. With a module name given, or the variable set to a non-empty value, the
  name is found and \<open>Settings.__init__\<close> goes on to load the module.
\<close>

theorem settings_module_required:
  "(settings_module = None
      \<and> (environ env ENVIRONMENT_VARIABLE = None \<or> environ env ENVIRONMENT_VARIABLE = Some [])
    \<longrightarrow> Settings_init env settings_module = Inl (Exc ImproperlyConfigured not_configured_message)
        \<and> Txt ENVIRONMENT_VARIABLE \<in> set not_configured_message)
   \<and> (\<forall>m. settings_module = Some m
        \<longrightarrow> settings_module_name env settings_module = Inr m
          \<and> Settings_init env settings_module = load_settings env m)
   \<and> (\<forall>v. settings_module = None \<and> environ env ENVIRONMENT_VARIABLE = Some v \<and> v \<noteq> []
        \<longrightarrow> settings_module_name env settings_module = Inr v
          \<and> Settings_init env settings_module = load_settings env v)"
  by (auto simp: Settings_init_def settings_module_name_def not_configured_message_def)

text \<open>
  In the example environment the variable is not set: constructing Settings with no
  argument raises, and with a module name given the name is taken.
\<close>

theorem settings_module_required_witness:
  "Settings_init example_env None = Inl (Exc ImproperlyConfigured not_configured_message)
   \<and> Txt ''WTFIX_SETTINGS_MODULE'' \<in> set not_configured_message
   \<and> settings_module_name example_env (Some ''config.bad_apps'') = Inr ''config.bad_apps''"
  using settings_module_required [of None example_env]
    settings_module_required [of "Some ''config.bad_apps''" example_env]
  by (simp add: ENVIRONMENT_VARIABLE_def example_env_def)

lemma isupper_PIPELINE_APPS: "isupper ''PIPELINE_APPS''"
  by (simp add: isupper_def is_ascii_upper_def is_ascii_lower_def)

lemma load_module_pipeline_apps:
  "(''PIPELINE_APPS'', v) \<in> set module \<Longrightarrow> \<not> is_list_or_tuple v \<Longrightarrow>
   load_module module st = Inl (Exc ImproperlyConfigured (must_be_list_message ''PIPELINE_APPS''))"
proof (induction module arbitrary: st)
  case Nil
  then show ?case by simp
next
  case (Cons a module)
  obtain n x where a: "a = (n, x)" by (cases a)
  obtain at ex where st: "st = (at, ex)" by (cases st)
  show ?case
  proof (cases "n = ''PIPELINE_APPS'' \<and> \<not> is_list_or_tuple x")
    case True
    then show ?thesis using a st isupper_PIPELINE_APPS by simp
  next
    case False
    with Cons.prems a have "(''PIPELINE_APPS'', v) \<in> set module" by auto
    from Cons.IH [OF this Cons.prems(2)] show ?thesis using a st False by simp
  qed
qed

text \<open>
  C7. When the settings module is found and imported, and it binds \<open>PIPELINE_APPS\<close> to
  a value that is neither a list nor a tuple, \<open>Settings.__init__\<close> raises
  \<open>ImproperlyConfigured\<close> with a message that names the setting: no Settings object
  comes to exist.
\<close>

theorem pipeline_apps_checked_at_load:
  assumes "settings_module_name env settings_module = Inr name"
    and "import_module env name = Inr module"
    and "(''PIPELINE_APPS'', v) \<in> set module"
    and "\<not> is_list_or_tuple v"
  shows "Settings_init env settings_module
           = Inl (Exc ImproperlyConfigured (must_be_list_message ''PIPELINE_APPS''))
         \<and> Txt ''PIPELINE_APPS'' \<in> set (must_be_list_message ''PIPELINE_APPS'')"
  using assms load_module_pipeline_apps [OF assms(3,4)]
  by (simp add: Settings_init_def load_settings_def must_be_list_message_def)

text \<open>
  The settings module \<open>config.bad_apps\<close> binds \<open>PIPELINE_APPS\<close> to a string.
\<close>

theorem pipeline_apps_checked_at_load_witness:
  "Settings_init example_env (Some ''config.bad_apps'')
     = Inl (Exc ImproperlyConfigured (must_be_list_message ''PIPELINE_APPS''))"
  using pipeline_apps_checked_at_load [of example_env "Some ''config.bad_apps''" "''config.bad_apps''"
      "[(''CONNECTIONS'', PDict []), (''PIPELINE_APPS'', PStr ''wtfix.apps.api'')]"
      "PStr ''wtfix.apps.api''"]
  by (simp add: settings_module_name_def example_env_def)


section \<open>The default connection\<close>

text \<open>
  C3. With \<open>CONNECTIONS\<close> bound to a dictionary, \<open>has_safe_defaults\<close> is true exactly
  when the dictionary has one connection; with one connection
  \<open>default_connection_name\<close> returns its name, and with two or more it raises
  \<open>ImproperlyConfigured\<close> with the message about more than one configured session.
\<close>

theorem default_connection_iff:
  assumes "map_of (attrs s) ''CONNECTIONS'' = Some (PDict connections)"
  shows "has_safe_defaults s = Inr (length connections = 1)
    \<and> (\<forall>name conf. connections = [(name, conf)]
          \<longrightarrow> default_connection_name s = Inr (PStr name))
    \<and> (2 \<le> length connections
          \<longrightarrow> default_connection_name s = Inl (Exc ImproperlyConfigured ambiguous_default_message))"
  using assms
  by (auto simp: has_safe_defaults_def default_connection_name_def getattr_settings_def)

text \<open>
  One connection, and four.
\<close>

theorem default_connection_iff_witness:
  "has_safe_defaults single_settings = Inr True
   \<and> default_connection_name single_settings = Inr (PStr ''default'')
   \<and> has_safe_defaults example_settings = Inr False
   \<and> default_connection_name example_settings
       = Inl (Exc ImproperlyConfigured ambiguous_default_message)"
  using default_connection_iff [of single_settings
      "[(''default'', PDict [(''HOST'', PStr ''localhost''),
                             (''GROUP_TEMPLATES'', PDict single_templates)])]"]
    default_connection_iff [of example_settings example_connections]
  by (simp add: single_settings_def example_settings_def example_connections_def)


section \<open>The loop of SessionSettings\<close>

lemma update_fresh: "k \<notin> fst ` set al \<Longrightarrow> AList.update k v al = al @ [(k, v)]"
  by (induction al) auto

text \<open>The loop writes no field of the Settings object but \<open>_active_protocol\<close>.\<close>

lemma promote_frame:
  "promote env items self s = (r, s') \<Longrightarrow> s' = s\<lparr>active_protocol_field := active_protocol_field s'\<rparr>"
proof (induction items arbitrary: self s)
  case Nil
  then show ?case by simp
next
  case (Cons a items)
  obtain k v where a: "a = (k, v)" by (cases a)
  show ?case
  proof (cases "k = ''PROTOCOL''")
    case True
    show ?thesis
    proof (cases "resolve_protocol env v")
      case (Inl e)
      with Cons.prems a True show ?thesis by simp
    next
      case (Inr c)
      with Cons.prems a True
      have "promote env items (AList.update k v self) (set_active_protocol c s) = (r, s')"
        by simp
      from Cons.IH [OF this] show ?thesis by (simp add: set_active_protocol_def)
    qed
  next
    case False
    with Cons.prems a have "promote env items (AList.update k v self) s = (r, s')" by simp
    from Cons.IH [OF this] show ?thesis .
  qed
qed

lemma promote_no_protocol:
  "''PROTOCOL'' \<notin> fst ` set items \<Longrightarrow> \<exists>view. promote env items self s = (Inr view, s)"
  by (induction items arbitrary: self) auto

text \<open>With distinct keys the object ends with the items of the connection, in order.\<close>

lemma promote_view:
  "promote env items self s = (Inr view, s') \<Longrightarrow> distinct (map fst (self @ items))
   \<Longrightarrow> view = self @ items"
proof (induction items arbitrary: self s)
  case Nil
  then show ?case by simp
next
  case (Cons a items)
  obtain k v where a: "a = (k, v)" by (cases a)
  from Cons.prems(2) a have fresh: "k \<notin> fst ` set self" by auto
  have upd: "AList.update k v self = self @ [(k, v)]" by (rule update_fresh [OF fresh])
  from Cons.prems(2) a have d: "distinct (map fst ((self @ [(k, v)]) @ items))" by simp
  obtain s0 where step: "promote env items (self @ [(k, v)]) s0 = (Inr view, s')"
    using Cons.prems(1) a upd by (auto split: if_splits sum.splits)
  from Cons.IH [OF step d] a show ?case by simp
qed

lemma promote_protocol_resolved:
  "promote env items self s = (Inr view, s') \<Longrightarrow> distinct (map fst items)
   \<Longrightarrow> map_of items ''PROTOCOL'' = Some p
   \<Longrightarrow> resolve_protocol env p = Inr (active_protocol_field s')"
proof (induction items arbitrary: self s)
  case Nil
  then show ?case by simp
next
  case (Cons a items)
  obtain k v where a: "a = (k, v)" by (cases a)
  show ?case
  proof (cases "k = ''PROTOCOL''")
    case True
    with Cons.prems(3) a have pv: "p = v" by simp
    from Cons.prems(2) a True have np: "''PROTOCOL'' \<notin> fst ` set items" by auto
    obtain c where c: "resolve_protocol env v = Inr c"
      and rest: "promote env items (AList.update k v self) (set_active_protocol c s) = (Inr view, s')"
      using Cons.prems(1) a True by (auto split: sum.splits)
    from promote_no_protocol [OF np, of env "AList.update k v self" "set_active_protocol c s"] rest
    have "s' = set_active_protocol c s" by auto
    with c pv show ?thesis by (simp add: set_active_protocol_def)
  next
    case False
    with Cons.prems a have rest: "promote env items (AList.update k v self) s = (Inr view, s')"
      and d: "distinct (map fst items)" and m: "map_of items ''PROTOCOL'' = Some p"
      by auto
    from Cons.IH [OF rest d m] show ?thesis .
  qed
qed





lemma SessionSettings_named_frame:
  "SessionSettings_named env s cn = (r, s') \<Longrightarrow> s' = s\<lparr>active_protocol_field := active_protocol_field s'\<rparr>"
  unfolding SessionSettings_named_def
  by (auto split: sum.splits dest: promote_frame)

lemma SessionSettings_init_frame:
  "SessionSettings_init env s cn = (r, s') \<Longrightarrow> s' = s\<lparr>active_protocol_field := active_protocol_field s'\<rparr>"
  unfolding SessionSettings_init_def
  by (auto split: sum.splits if_splits prod.splits dest: SessionSettings_named_frame)

lemma SessionSettings_init_attrs:
  "SessionSettings_init env s cn = (r, s') \<Longrightarrow> attrs s' = attrs s"
  by (drule SessionSettings_init_frame)
     (metis Settings.select_convs(1) Settings.surjective Settings.update_convs(4))

lemma SessionSettings_init_lookup:
  assumes "map_of (attrs s) ''CONNECTIONS'' = Some (PDict connections)"
    and "map_of connections name = Some (PDict conf)"
  shows "SessionSettings_init env s (PStr name) = promote env conf [] s"
  using assms
  by (simp add: SessionSettings_init_def SessionSettings_named_def getattr_settings_def)

text \<open>Line 169 is lines 96-98 followed by the subscript.\<close>

lemma SessionSettings_init_None:
  "SessionSettings_init env s PNone =
     (case default_connection env s of
        (Inl e, s1) \<Rightarrow> (Inl e, s1)
      | (Inr dc, s1) \<Rightarrow> (Inl (Exc TypeError []), s1))"
  by (auto simp: SessionSettings_init_def default_connection_def split: sum.splits prod.splits)


section \<open>Projection and the active protocol\<close>

text \<open>
  C4. Let SessionSettings be constructed for a connection \<open>x\<close> and then for a
  connection \<open>y\<close> that defines \<open>PROTOCOL\<close>. Afterwards \<open>_active_protocol\<close> holds what
  the \<open>PROTOCOL\<close> of \<open>y\<close> resolves to, and, that being a class and not \<open>None\<close>, reading
  \<open>active_protocol\<close> returns it and leaves the Settings object as it is, whatever the
  modules that could be imported by then: nothing is resolved again.
\<close>

theorem last_projection_wins:
  assumes conns: "map_of (attrs s) ''CONNECTIONS'' = Some (PDict connections)"
    and cy: "map_of connections y = Some (PDict conf_y)"
    and dy: "distinct (map fst conf_y)"
    and py: "map_of conf_y ''PROTOCOL'' = Some p_y"
    and first: "SessionSettings_init env s (PStr x) = (Inr view_x, s1)"
    and second: "SessionSettings_init env s1 (PStr y) = (Inr view_y, s2)"
  shows "resolve_protocol env p_y = Inr (active_protocol_field s2)
    \<and> (active_protocol_field s2 \<noteq> PNone
         \<longrightarrow> (\<forall>env'. active_protocol env' s2 = (Inr (active_protocol_field s2), s2)))"
proof -
  from first have "attrs s1 = attrs s" by (rule SessionSettings_init_attrs)
  with conns have "map_of (attrs s1) ''CONNECTIONS'' = Some (PDict connections)" by simp
  from SessionSettings_init_lookup [OF this cy] second
  have "promote env conf_y [] s1 = (Inr view_y, s2)" by simp
  from promote_protocol_resolved [OF this dy py]
  have "resolve_protocol env p_y = Inr (active_protocol_field s2)" .
  then show ?thesis by (simp add: active_protocol_def)
qed

text \<open>
  Connection \<open>x\<close> names \<open>FIX42\<close> and connection \<open>y\<close> names \<open>FIX44\<close>: after both
  constructions \<open>active_protocol\<close> is \<open>FIX44\<close>, also where no module has that class
  any more.
\<close>

theorem last_projection_wins_witness:
  "SessionSettings_init example_env example_settings (PStr ''x'')
     = (Inr [(''HOST'', PStr ''a.example''), (''PROTOCOL'', PStr ''wtfix.protocol.fix.FIX42'')],
        example_settings\<lparr>active_protocol_field := PClass ''FIX42''\<rparr>)
   \<and> SessionSettings_init example_env
        (example_settings\<lparr>active_protocol_field := PClass ''FIX42''\<rparr>) (PStr ''y'')
     = (Inr [(''PROTOCOL'', PStr ''wtfix.protocol.fix.FIX44''), (''HOST'', PStr ''b.example'')],
        example_settings\<lparr>active_protocol_field := PClass ''FIX44''\<rparr>)
   \<and> resolve_protocol example_env (PStr ''wtfix.protocol.fix.FIX44'') = Inr (PClass ''FIX44'')
   \<and> active_protocol \<lparr>environ = (\<lambda>n. None), import_module = (\<lambda>n. Inr []), global_settings = []\<rparr>
        (example_settings\<lparr>active_protocol_field := PClass ''FIX44''\<rparr>)
     = (Inr (PClass ''FIX44''), example_settings\<lparr>active_protocol_field := PClass ''FIX44''\<rparr>)"
proof -
  let ?s1 = "example_settings\<lparr>active_protocol_field := PClass ''FIX42''\<rparr>"
  let ?s2 = "example_settings\<lparr>active_protocol_field := PClass ''FIX44''\<rparr>"
  let ?cy = "[(''PROTOCOL'', PStr ''wtfix.protocol.fix.FIX44''), (''HOST'', PStr ''b.example'')]"
  have h1: "map_of (attrs example_settings) ''CONNECTIONS'' = Some (PDict example_connections)"
    by (simp add: example_settings_def)
  have h2: "map_of example_connections ''y'' = Some (PDict ?cy)"
    by (simp add: example_connections_def)
  have h3: "distinct (map fst ?cy)" by simp
  have h4: "map_of ?cy ''PROTOCOL'' = Some (PStr ''wtfix.protocol.fix.FIX44'')" by simp
  have first: "SessionSettings_init example_env example_settings (PStr ''x'')
     = (Inr [(''HOST'', PStr ''a.example''), (''PROTOCOL'', PStr ''wtfix.protocol.fix.FIX42'')], ?s1)"
    by (simp add: SessionSettings_init_def SessionSettings_named_def getattr_settings_def
        example_settings_def example_connections_def resolve_protocol_def rsplit_dot_def
        example_env_def set_active_protocol_def)
  have second: "SessionSettings_init example_env ?s1 (PStr ''y'') = (Inr ?cy, ?s2)"
    by (simp add: SessionSettings_init_def SessionSettings_named_def getattr_settings_def
        example_settings_def example_connections_def resolve_protocol_def rsplit_dot_def
        example_env_def set_active_protocol_def)
  from last_projection_wins [OF h1 h2 h3 h4 first second] first second
  show ?thesis by simp
qed




text \<open>
  C9. With exactly one connection configured, whenever constructing SessionSettings
  with that connection's name yields an object, constructing it with the name omitted
  raises \<open>TypeError\<close> instead (after the same effect on the Settings object): line 169
  subscripts the SessionSettings object that \<open>default_connection\<close> returns.
\<close>

theorem omitted_connection_name_raises:
  assumes "map_of (attrs s) ''CONNECTIONS'' = Some (PDict [(name, conf)])"
    and "SessionSettings_init env s (PStr name) = (Inr view, s1)"
  shows "SessionSettings_init env s PNone = (Inl (Exc TypeError []), s1)"
  using assms
  by (simp add: SessionSettings_init_def default_connection_name_def has_safe_defaults_def
      getattr_settings_def)

text \<open>
  With the one connection \<open>default\<close>: the name given yields the object, the name
  omitted raises \<open>TypeError\<close>.
\<close>

theorem omitted_connection_name_raises_witness:
  "SessionSettings_init example_env single_settings (PStr ''default'')
     = (Inr [(''HOST'', PStr ''localhost''), (''GROUP_TEMPLATES'', PDict single_templates)],
        single_settings)
   \<and> SessionSettings_init example_env single_settings PNone
     = (Inl (Exc TypeError []), single_settings)"
proof -
  have h1: "map_of (attrs single_settings) ''CONNECTIONS''
      = Some (PDict [(''default'', PDict [(''HOST'', PStr ''localhost''),
                                         (''GROUP_TEMPLATES'', PDict single_templates)])])"
    by (simp add: single_settings_def)
  have h2: "SessionSettings_init example_env single_settings (PStr ''default'')
     = (Inr [(''HOST'', PStr ''localhost''), (''GROUP_TEMPLATES'', PDict single_templates)],
        single_settings)"
    by (simp add: SessionSettings_init_def SessionSettings_named_def getattr_settings_def
        single_settings_def)
  from omitted_connection_name_raises [OF h1 h2] h2 show ?thesis by simp
qed

text \<open>
  C10. Constructing SessionSettings, for any connection name or none, changes no field
  of the Settings object other than \<open>_active_protocol\<close>. For a connection whose
  dictionary has no \<open>PROTOCOL\<close> key it leaves the whole Settings object, and so
  \<open>_active_protocol\<close>, as it was, and the new object has exactly the items of the
  connection; whenever the construction yields an object, that object has exactly the
  items of the connection.
\<close>

theorem projection_frame:
  "snd (SessionSettings_init env s cn)
     = s\<lparr>active_protocol_field := active_protocol_field (snd (SessionSettings_init env s cn))\<rparr>
   \<and> (\<forall>connections conf.
         map_of (attrs s) ''CONNECTIONS'' = Some (PDict connections)
         \<and> map_of connections name = Some (PDict conf)
         \<and> distinct (map fst conf) \<and> map_of conf ''PROTOCOL'' = None
       \<longrightarrow> SessionSettings_init env s (PStr name) = (Inr conf, s))
   \<and> (\<forall>connections conf view s'.
         map_of (attrs s) ''CONNECTIONS'' = Some (PDict connections)
         \<and> map_of connections name = Some (PDict conf)
         \<and> distinct (map fst conf)
         \<and> SessionSettings_init env s (PStr name) = (Inr view, s')
       \<longrightarrow> view = conf)"
proof -
  have a: "snd (SessionSettings_init env s cn)
     = s\<lparr>active_protocol_field := active_protocol_field (snd (SessionSettings_init env s cn))\<rparr>"
    by (rule SessionSettings_init_frame [of env s cn "fst (SessionSettings_init env s cn)"]) simp
  have c: "view = conf"
    if "map_of (attrs s) ''CONNECTIONS'' = Some (PDict connections)"
      "map_of connections name = Some (PDict conf)" "distinct (map fst conf)"
      "SessionSettings_init env s (PStr name) = (Inr view, s')" for connections conf view s'
  proof -
    from SessionSettings_init_lookup [OF that(1,2)] that(4)
    have "promote env conf [] s = (Inr view, s')" by simp
    from promote_view [OF this] that(3) show ?thesis by simp
  qed
  have b: "SessionSettings_init env s (PStr name) = (Inr conf, s)"
    if "map_of (attrs s) ''CONNECTIONS'' = Some (PDict connections)"
      "map_of connections name = Some (PDict conf)" "distinct (map fst conf)"
      "map_of conf ''PROTOCOL'' = None" for connections conf
  proof -
    from that(4) have "''PROTOCOL'' \<notin> fst ` set conf" by (simp add: map_of_eq_None_iff)
    from promote_no_protocol [OF this, of env "[]" s]
    obtain view where v: "promote env conf [] s = (Inr view, s)" by blast
    with SessionSettings_init_lookup [OF that(1,2)]
    have i: "SessionSettings_init env s (PStr name) = (Inr view, s)" by simp
    from c [OF that(1,2,3) i] i show ?thesis by simp
  qed
  from a b c show ?thesis by blast
qed

text \<open>
  The connection \<open>z\<close> has no \<open>PROTOCOL\<close>.
\<close>

theorem projection_frame_witness:
  "SessionSettings_init example_env example_settings (PStr ''z'')
     = (Inr [(''HOST'', PStr ''c.example'')], example_settings)"
proof -
  let ?conf = "[(''HOST'', PStr ''c.example'')]"
  have h1: "map_of (attrs example_settings) ''CONNECTIONS'' = Some (PDict example_connections)"
    by (simp add: example_settings_def)
  have h2: "map_of example_connections ''z'' = Some (PDict ?conf)"
    by (simp add: example_connections_def)
  have h3: "distinct (map fst ?conf)" by simp
  have h4: "map_of ?conf ''PROTOCOL'' = None" by simp
  note unchanged = projection_frame [of example_env example_settings PNone "''z''",
      THEN conjunct2, THEN conjunct1, rule_format, of example_connections ?conf]
  from unchanged [OF conjI [OF h1 conjI [OF h2 conjI [OF h3 h4]]]] show ?thesis .
qed


section \<open>Group templates\<close>

lemma filter_keys:
  "map fst (filter (\<lambda>(i, t). P i) items) = filter P (map fst items)"
  by (induction items) auto

text \<open>
  The length test of line 142: as many templates were found as identifiers were asked
  for exactly when every identifier is a key.
\<close>

lemma found_all_iff:
  assumes "distinct (map fst items)"
  shows "length (filter (\<lambda>(i, t). i |\<in>| ids) items) = fcard ids
         \<longleftrightarrow> ids |\<subseteq>| fset_of_list (map fst items)"
proof -
  let ?keys = "map fst items"
  have "length (filter (\<lambda>(i, t). i |\<in>| ids) items) = length (filter (\<lambda>i. i |\<in>| ids) ?keys)"
    by (metis filter_keys length_map)
  also have "\<dots> = card ({i. i |\<in>| ids} \<inter> set ?keys)"
    using assms by (rule distinct_length_filter)
  also have "{i. i |\<in>| ids} = fset ids" by auto
  finally have len: "length (filter (\<lambda>(i, t). i |\<in>| ids) items) = card (fset ids \<inter> set ?keys)" .
  have "card (fset ids \<inter> set ?keys) = card (fset ids) \<longleftrightarrow> fset ids \<subseteq> set ?keys"
  proof
    assume "card (fset ids \<inter> set ?keys) = card (fset ids)"
    then have "fset ids \<inter> set ?keys = fset ids"
      by (intro card_subset_eq) auto
    then show "fset ids \<subseteq> set ?keys" by blast
  next
    assume "fset ids \<subseteq> set ?keys"
    then have "fset ids \<inter> set ?keys = fset ids" by blast
    then show "card (fset ids \<inter> set ?keys) = card (fset ids)" by simp
  qed
  with len show ?thesis
    by (simp add: fcard.rep_eq less_eq_fset.rep_eq fset_of_list.rep_eq)
qed

lemma found_keys:
  assumes "ids |\<subseteq>| fset_of_list (map fst items)"
  shows "fset_of_list (map fst (filter (\<lambda>(i, t). i |\<in>| ids) items)) = ids"
proof (rule fset_eqI)
  fix x
  have "x \<in> set (map fst items)" if "x |\<in>| ids"
    using assms that by (metis fset_of_list_elem fsubsetD)
  then show "x |\<in>| fset_of_list (map fst (filter (\<lambda>(i, t). i |\<in>| ids) items)) \<longleftrightarrow> x |\<in>| ids"
    unfolding filter_keys fset_of_list_elem by auto
qed

lemma missing_keys:
  "ids |-| fset_of_list (map fst (filter (\<lambda>(i, t). i |\<in>| ids) items))
     = ids |-| fset_of_list (map fst items)"
proof (rule fset_eqI)
  fix x
  show "x |\<in>| ids |-| fset_of_list (map fst (filter (\<lambda>(i, t). i |\<in>| ids) items))
        \<longleftrightarrow> x |\<in>| ids |-| fset_of_list (map fst items)"
    unfolding filter_keys fminus_iff fset_of_list_elem by auto
qed

lemma message_shows_missing:
  "SetRepr missing \<in> set (no_group_template_message missing)"
  by (simp add: no_group_template_message_def)

text \<open>
  C6, as the code has it. Take a connection, named or the only one configured. When
  its dictionary has no \<open>GROUP_TEMPLATES\<close> key, \<open>get_group_templates\<close> raises
  \<open>KeyError\<close>, whatever identifiers are asked for. When \<open>GROUP_TEMPLATES\<close> is a
  dictionary: with no identifiers given it returns all of it; with a set of identifiers
  that are all keys it returns the templates of exactly those identifiers; with a set
  of which some identifier is not a key it raises \<open>ImproperlyConfigured\<close>, and the
  message contains the set of exactly the missing identifiers.
\<close>

theorem group_templates_lookup:
  assumes conns: "map_of (attrs s) ''CONNECTIONS'' = Some (PDict connections)"
    and conn: "map_of connections name = Some (PDict conf)"
    and cn: "cn = PStr name \<or> (cn = PNone \<and> length connections = 1)"
  shows "(map_of conf ''GROUP_TEMPLATES'' = None
          \<longrightarrow> (\<forall>identifiers. get_group_templates s cn identifiers = Inl (Exc KeyError [])))
    \<and> (\<forall>templates.
          map_of conf ''GROUP_TEMPLATES'' = Some (PDict templates) \<and> distinct (map fst templates)
          \<longrightarrow> get_group_templates s cn None = Inr (PDict templates)
            \<and> (\<forall>ids. ids |\<subseteq>| fset_of_list (map fst templates)
                  \<longrightarrow> get_group_templates s cn (Some ids)
                        = Inr (PDict (filter (\<lambda>(i, t). i |\<in>| ids) templates))
                      \<and> fset_of_list (map fst (filter (\<lambda>(i, t). i |\<in>| ids) templates)) = ids)
            \<and> (\<forall>ids. \<not> ids |\<subseteq>| fset_of_list (map fst templates)
                  \<longrightarrow> get_group_templates s cn (Some ids)
                        = Inl (Exc ImproperlyConfigured
                            (no_group_template_message (ids |-| fset_of_list (map fst templates))))
                      \<and> SetRepr (ids |-| fset_of_list (map fst templates))
                          \<in> set (no_group_template_message
                                   (ids |-| fset_of_list (map fst templates)))
                      \<and> ids |-| fset_of_list (map fst templates) \<noteq> {||}))"
proof -
  have name: "(if cn = PNone then default_connection_name s else Inr cn) = Inr (PStr name)"
  proof (cases "cn = PNone")
    case False
    with cn show ?thesis by simp
  next
    case True
    with cn have "length connections = 1" by simp
    then obtain k v where "connections = [(k, v)]"
      by (cases connections) (auto simp: length_Suc_conv)
    with conn have "connections = [(name, PDict conf)]" by (auto split: if_splits)
    with conns True show ?thesis
      by (simp add: default_connection_name_def has_safe_defaults_def getattr_settings_def)
  qed
  have absent: "get_group_templates s cn identifiers = Inl (Exc KeyError [])"
    if "map_of conf ''GROUP_TEMPLATES'' = None" for identifiers
    using name conns conn that
    by (simp add: get_group_templates_def getattr_settings_def)
  have present: "get_group_templates s cn None = Inr (PDict templates)
            \<and> (\<forall>ids. ids |\<subseteq>| fset_of_list (map fst templates)
                  \<longrightarrow> get_group_templates s cn (Some ids)
                        = Inr (PDict (filter (\<lambda>(i, t). i |\<in>| ids) templates))
                      \<and> fset_of_list (map fst (filter (\<lambda>(i, t). i |\<in>| ids) templates)) = ids)
            \<and> (\<forall>ids. \<not> ids |\<subseteq>| fset_of_list (map fst templates)
                  \<longrightarrow> get_group_templates s cn (Some ids)
                        = Inl (Exc ImproperlyConfigured
                            (no_group_template_message (ids |-| fset_of_list (map fst templates))))
                      \<and> SetRepr (ids |-| fset_of_list (map fst templates))
                          \<in> set (no_group_template_message
                                   (ids |-| fset_of_list (map fst templates)))
                      \<and> ids |-| fset_of_list (map fst templates) \<noteq> {||})"
    if tmpl: "map_of conf ''GROUP_TEMPLATES'' = Some (PDict templates)"
      and dist: "distinct (map fst templates)" for templates
  proof -
    have all: "get_group_templates s cn None = Inr (PDict templates)"
      using name conns conn tmpl
      by (simp add: get_group_templates_def getattr_settings_def)
    have some: "get_group_templates s cn (Some ids) =
        (if length (filter (\<lambda>(i, t). i |\<in>| ids) templates) \<noteq> fcard ids
         then Inl (Exc ImproperlyConfigured
                (no_group_template_message
                   (ids |-| fset_of_list (map fst (filter (\<lambda>(i, t). i |\<in>| ids) templates)))))
         else Inr (PDict (filter (\<lambda>(i, t). i |\<in>| ids) templates)))" for ids
      using name conns conn tmpl
      by (simp add: get_group_templates_def getattr_settings_def Let_def)
    have found: "get_group_templates s cn (Some ids)
                  = Inr (PDict (filter (\<lambda>(i, t). i |\<in>| ids) templates))
                \<and> fset_of_list (map fst (filter (\<lambda>(i, t). i |\<in>| ids) templates)) = ids"
      if "ids |\<subseteq>| fset_of_list (map fst templates)" for ids
      using that some [of ids] found_all_iff [OF dist, of ids] found_keys [OF that]
      by simp
    have missing: "get_group_templates s cn (Some ids)
                  = Inl (Exc ImproperlyConfigured
                      (no_group_template_message (ids |-| fset_of_list (map fst templates))))
                \<and> ids |-| fset_of_list (map fst templates) \<noteq> {||}"
      if "\<not> ids |\<subseteq>| fset_of_list (map fst templates)" for ids
      using that some [of ids] found_all_iff [OF dist, of ids] missing_keys [of ids templates]
      by auto
    from all found missing message_shows_missing show ?thesis by blast
  qed
  from absent present show ?thesis by blast
qed

text \<open>
  Templates \<open>A\<close> and \<open>C\<close> are defined: asking for \<open>A\<close> returns it, asking for \<open>A\<close>
  and \<open>B\<close> raises and names \<open>B\<close>. The connection \<open>z\<close> has no \<open>GROUP_TEMPLATES\<close>.
\<close>

theorem group_templates_lookup_witness:
  "get_group_templates single_settings (PStr ''default'') None = Inr (PDict single_templates)
   \<and> get_group_templates single_settings (PStr ''default'') (Some {|''A''|})
       = Inr (PDict [(''A'', PList [PInt 1, PInt 2])])
   \<and> get_group_templates single_settings (PStr ''default'') (Some {|''A'', ''B''|})
       = Inl (Exc ImproperlyConfigured (no_group_template_message {|''B''|}))
   \<and> SetRepr {|''B''|} \<in> set (no_group_template_message {|''B''|})
   \<and> get_group_templates example_settings (PStr ''z'') (Some {|''A''|}) = Inl (Exc KeyError [])"
proof -
  let ?conf = "[(''HOST'', PStr ''localhost''), (''GROUP_TEMPLATES'', PDict single_templates)]"
  have h1: "map_of (attrs single_settings) ''CONNECTIONS'' = Some (PDict [(''default'', PDict ?conf)])"
    by (simp add: single_settings_def)
  have h2: "map_of [(''default'', PDict ?conf)] ''default'' = Some (PDict ?conf)" by simp
  have h3: "map_of ?conf ''GROUP_TEMPLATES'' = Some (PDict single_templates)" by simp
  have h4: "distinct (map fst single_templates)" by (simp add: single_templates_def)
  have h5: "PStr ''default'' = PStr ''default'' \<or> (PStr ''default'' = PNone \<and> length [(''default'', PDict ?conf)] = 1)"
    by simp
  note t = group_templates_lookup [OF h1 h2 h5, THEN conjunct2, rule_format, OF conjI [OF h3 h4]]
  have k: "fset_of_list (map fst single_templates) = {|''A'', ''C''|}"
    by (simp add: single_templates_def)
  have a: "{|''A''|} |\<subseteq>| {|''A'', ''C''|}" by simp
  have b: "\<not> {|''A'', ''B''|} |\<subseteq>| {|''A'', ''C''|}" by simp
  have d: "{|''A'', ''B''|} |-| {|''A'', ''C''|} = {|''B''|}" by auto
  from t have t1: "get_group_templates single_settings (PStr ''default'') None = Inr (PDict single_templates)"
    by blast
  from t a k have t2: "get_group_templates single_settings (PStr ''default'') (Some {|''A''|})
       = Inr (PDict (filter (\<lambda>(i, t). i |\<in>| {|''A''|}) single_templates))"
    by metis
  from t b k have t3: "get_group_templates single_settings (PStr ''default'') (Some {|''A'', ''B''|})
       = Inl (Exc ImproperlyConfigured (no_group_template_message ({|''A'', ''B''|} |-| {|''A'', ''C''|})))
       \<and> SetRepr ({|''A'', ''B''|} |-| {|''A'', ''C''|})
           \<in> set (no_group_template_message ({|''A'', ''B''|} |-| {|''A'', ''C''|}))"
    by metis
  have z1: "map_of (attrs example_settings) ''CONNECTIONS'' = Some (PDict example_connections)"
    by (simp add: example_settings_def)
  have z2: "map_of example_connections ''z'' = Some (PDict [(''HOST'', PStr ''c.example'')])"
    by (simp add: example_connections_def)
  have z3: "PStr ''z'' = PStr ''z'' \<or> (PStr ''z'' = PNone \<and> length example_connections = 1)"
    by simp
  have z4: "map_of [(''HOST'', PStr ''c.example'')] ''GROUP_TEMPLATES'' = None" by simp
  note z = group_templates_lookup [OF z1 z2 z3, THEN conjunct1, rule_format, OF z4,
      of "Some {|''A''|}"]
  from t1 t2 t3 d z show ?thesis by (simp add: single_templates_def)
qed

text \<open>
  C6 as stated fails: the connection \<open>z\<close> defines no group templates, and
  \<open>get_group_templates\<close> raises \<open>KeyError\<close> for it, where the claim has it return
  the templates defined (none), return the empty set asked for, or raise
  \<open>ImproperlyConfigured\<close> naming \<open>A\<close>.
\<close>

theorem group_templates_lookup_counterexample:
  "get_group_templates example_settings (PStr ''z'') None = Inl (Exc KeyError [])
   \<and> get_group_templates example_settings (PStr ''z'') (Some {||}) = Inl (Exc KeyError [])
   \<and> get_group_templates example_settings (PStr ''z'') (Some {|''A''|}) = Inl (Exc KeyError [])
   \<and> KeyError \<noteq> ImproperlyConfigured"
  by (simp add: get_group_templates_def getattr_settings_def example_settings_def
      example_connections_def)

end
